theory Spec2Isabelle
  imports Main
begin

section \<open>Time values of the JavaScript \<open>Date\<close> object\<close>

text \<open>
  A \<open>Date\<close> holds a time value: the integral number of milliseconds since
  1970-01-01T00:00:00Z. \<open>Day(t) = floor(t / msPerDay)\<close> is the day number, and
  integer division in HOL rounds towards minus infinity as \<open>floor\<close> does.
\<close>

type_synonym instant = int

definition msPerDay :: int where
  "msPerDay = 86400000"

text \<open>
  The day number of the first day of year \<open>y\<close> (ECMAScript \<open>DayFromYear\<close>); it is
  used below to name concrete instants such as 2024-01-01T23:59:59Z.
\<close>

definition DayFromYear :: "int \<Rightarrow> int" where
  "DayFromYear y =
     365 * (y - 1970) + (y - 1969) div 4 - (y - 1901) div 100 + (y - 1601) div 400"

text \<open>
  \<open>utcInstant y d h m s\<close>: the time value of day \<open>d\<close> (counted from 0) of year \<open>y\<close>
  at \<open>h:m:s\<close> UTC.
\<close>

definition utcInstant :: "int \<Rightarrow> int \<Rightarrow> int \<Rightarrow> int \<Rightarrow> int \<Rightarrow> instant" where
  "utcInstant y d h m s =
     (DayFromYear y + d) * msPerDay + h * 3600000 + m * 60000 + s * 1000"

text \<open>
  \<open>d.setUTCHours(0, 0, 0, 0)\<close>: the time value becomes
  \<open>MakeDate(Day(t), MakeTime(0, 0, 0, 0))\<close>, midnight UTC of the day of \<open>t\<close>.
\<close>

definition setUTCHours0 :: "instant \<Rightarrow> instant" where
  "setUTCHours0 t = (t div msPerDay) * msPerDay"

text \<open>
  The time zone of the process that runs the code, as \<open>Date\<close> sees it.
  \<open>offsetAt t\<close> is the offset of local time from UTC (in milliseconds, positive
  east of Greenwich) in force at the instant \<open>t\<close>. \<open>offsetOfLocal l\<close> is the offset
  by which the local time value \<open>l\<close> is read back as an instant; where a local time
  occurs twice or not at all, because the clocks change, it is the offset in force
  before the change. The zone is a setting of the server, so it is a parameter.
\<close>

record timezone =
  offsetAt :: "instant \<Rightarrow> int"
  offsetOfLocal :: "int \<Rightarrow> int"

text \<open>A zone whose offset never changes; \<open>fixedZone 0\<close> is UTC.\<close>

definition fixedZone :: "int \<Rightarrow> timezone" where
  "fixedZone z = \<lparr>offsetAt = (\<lambda>t. z), offsetOfLocal = (\<lambda>l. z)\<rparr>"

text \<open>
  \<open>d.setHours(0, 0, 0, 0)\<close> works on local time: with \<open>l = LocalTime(t)\<close>, which
  is \<open>t\<close> plus the offset in force at \<open>t\<close>, the time value becomes
  \<open>UTC(MakeDate(Day(l), MakeTime(0, 0, 0, 0)))\<close>, local midnight of the local day
  of \<open>t\<close> read back as an instant with the offset that belongs to that local
  midnight.
\<close>

definition setHours0 :: "timezone \<Rightarrow> instant \<Rightarrow> instant" where
  "setHours0 tz t =
     (let l = t + offsetAt tz t;
          midnight = (l div msPerDay) * msPerDay
      in midnight - offsetOfLocal tz midnight)"


section \<open>The database\<close>

text \<open>
  The tables the queries read and write. \<open>isAdmin\<close> may be null. The table of usage
  records is called \<open>userRequests\<close> with column \<open>createdAt\<close> in
  \<open>src/server/db/queries.ts\<close> and \<open>requests\<close> with column \<open>timestamp\<close> in the other
  version of that file; both name the one ledger of the data model, so it is one
  table here. The journal lists the statements sent to the database, in order.
\<close>

record user_row =
  user_id :: string
  isAdmin :: "bool option"

record request_row =
  userId :: string
  createdAt :: instant

record chat_row =
  chat_id :: string
  chat_userId :: string

datatype db_op =
    SelectUser string
  | CountRequests string instant
  | InsertRequest string
  | SelectChat string

record db =
  users :: "user_row list"
  userRequests :: "request_row list"
  chats :: "chat_row list"
  journal :: "db_op list"

text \<open>
  \<open>db.select({ isAdmin: users.isAdmin }).from(users).where(eq(users.id, userId)).limit(1)\<close>:
  the \<open>isAdmin\<close> column of at most one matching row.
\<close>

definition select_isAdmin :: "string \<Rightarrow> db \<Rightarrow> bool option list \<times> db" where
  "select_isAdmin uid s =
     (take 1 (map isAdmin (filter (\<lambda>u. user_id u = uid) (users s))),
      s\<lparr>journal := journal s @ [SelectUser uid]\<rparr>)"

text \<open>\<open>db.query.users.findFirst({ where: eq(users.id, userId) })\<close>: a row or undefined.\<close>

definition findFirst_user :: "string \<Rightarrow> db \<Rightarrow> user_row option \<times> db" where
  "findFirst_user uid s =
     (find (\<lambda>u. user_id u = uid) (users s),
      s\<lparr>journal := journal s @ [SelectUser uid]\<rparr>)"

text \<open>
  The rows of \<open>select count(*) from userRequests where userId = uid and createdAt >= since\<close>.
  An aggregate without grouping yields exactly one row; only its \<open>count\<close> column is kept.
\<close>

definition countSince :: "request_row list \<Rightarrow> string \<Rightarrow> instant \<Rightarrow> int" where
  "countSince rs uid since =
     int (length (filter (\<lambda>r. userId r = uid \<and> since \<le> createdAt r) rs))"

definition select_count :: "string \<Rightarrow> instant \<Rightarrow> db \<Rightarrow> int option list \<times> db" where
  "select_count uid since s =
     ([Some (countSince (userRequests s) uid since)],
      s\<lparr>journal := journal s @ [CountRequests uid since]\<rparr>)"

text \<open>
  Modelled from the spec: the table declaration (the schema file) is not among the
  sources. \<open>db.insert(userRequests).values({ userId })\<close> gives only the user; the
  spec says the appended record has \<open>createdAt = now\<close>, the column's default, so the
  instant of the insertion is a parameter.
\<close>

definition insert_request :: "instant \<Rightarrow> string \<Rightarrow> db \<Rightarrow> db" where
  "insert_request now uid s =
     s\<lparr>userRequests := userRequests s @ [\<lparr>userId = uid, createdAt = now\<rparr>],
       journal := journal s @ [InsertRequest uid]\<rparr>"

text \<open>\<open>db.query.chats.findFirst({ where: eq(chats.id, currentChatId) })\<close>.\<close>

definition findFirst_chat :: "string \<Rightarrow> db \<Rightarrow> chat_row option \<times> db" where
  "findFirst_chat cid s =
     (find (\<lambda>c. chat_id c = cid) (chats s),
      s\<lparr>journal := journal s @ [SelectChat cid]\<rparr>)"


section \<open>JavaScript operators on query results\<close>

text \<open>
  \<open>rows[0]?.col\<close>: undefined when there is no row, else the column of the first row.
  \<open>None\<close> stands for both undefined and null, which \<open>||\<close>, \<open>??\<close> and a truth test
  treat alike.
\<close>

definition first_col :: "'a option list \<Rightarrow> 'a option" where
  "first_col rows = (case rows of [] \<Rightarrow> None | v # _ \<Rightarrow> v)"

text \<open>\<open>x || 0\<close>: 0 when \<open>x\<close> is falsy (undefined, null or 0), else \<open>x\<close>.\<close>

definition or_zero :: "int option \<Rightarrow> int" where
  "or_zero x = (case x of None \<Rightarrow> 0 | Some n \<Rightarrow> if n = 0 then 0 else n)"

text \<open>\<open>x || false\<close>.\<close>

definition or_false :: "bool option \<Rightarrow> bool" where
  "or_false x = (case x of None \<Rightarrow> False | Some b \<Rightarrow> if b then b else False)"

text \<open>\<open>x ?? 0\<close>: 0 when \<open>x\<close> is undefined or null, else \<open>x\<close>.\<close>

definition nullish_zero :: "int option \<Rightarrow> int" where
  "nullish_zero x = (case x of None \<Rightarrow> 0 | Some n \<Rightarrow> n)"


section \<open>\<open>src/server/db/queries.ts\<close>\<close>

definition DAILY_REQUEST_LIMIT :: int where
  "DAILY_REQUEST_LIMIT = 1"

definition getUserDailyRequestCount :: "timezone \<Rightarrow> instant \<Rightarrow> string \<Rightarrow> db \<Rightarrow> int \<times> db" where
  "getUserDailyRequestCount tz now uid s =
     (let today = setHours0 tz now;
          (result, s') = select_count uid today s
      in (or_zero (first_col result), s'))"

definition addUserRequest :: "instant \<Rightarrow> string \<Rightarrow> db \<Rightarrow> db" where
  "addUserRequest now uid s = insert_request now uid s"

definition isUserAdmin :: "string \<Rightarrow> db \<Rightarrow> bool \<times> db" where
  "isUserAdmin uid s =
     (let (user, s') = select_isAdmin uid s
      in (or_false (first_col user), s'))"

record decision =
  allowed :: bool
  remaining :: int
  limit :: int

definition checkRateLimit :: "timezone \<Rightarrow> instant \<Rightarrow> string \<Rightarrow> db \<Rightarrow> decision \<times> db" where
  "checkRateLimit tz now uid s =
     (let (admin, s1) = isUserAdmin uid s
      in if admin then (\<lparr>allowed = True, remaining = - 1, limit = - 1\<rparr>, s1)
         else
           let (dailyCount, s2) = getUserDailyRequestCount tz now uid s1;
               remaining' = max 0 (DAILY_REQUEST_LIMIT - dailyCount)
           in (\<lparr>allowed = dailyCount < DAILY_REQUEST_LIMIT,
                remaining = remaining',
                limit = DAILY_REQUEST_LIMIT\<rparr>, s2))"


section \<open>The other version of the queries, and the request handler\<close>

definition REQUESTS_PER_DAY :: int where
  "REQUESTS_PER_DAY = 1"

text \<open>
  \<open>user?.isAdmin\<close> as a condition: true only for a row whose flag is true. The
  count of the first row is compared as a number.
\<close>

definition checkRateLimit_part000 :: "instant \<Rightarrow> string \<Rightarrow> db \<Rightarrow> bool \<times> db" where
  "checkRateLimit_part000 now uid s =
     (let (user, s1) = findFirst_user uid s
      in if (case user of None \<Rightarrow> False | Some u \<Rightarrow> isAdmin u = Some True) then (True, s1)
         else
           let startOfDay = setUTCHours0 now;
               (requestCount, s2) = select_count uid startOfDay s1
           in (nullish_zero (first_col requestCount) < REQUESTS_PER_DAY, s2))"

definition recordRequest :: "instant \<Rightarrow> string \<Rightarrow> db \<Rightarrow> db" where
  "recordRequest now uid s = insert_request now uid s"

record message =
  role :: string
  content :: string

record body =
  messages :: "message list"
  chatId :: "string option"

text \<open>
  A plain \<open>new Response(text, { status })\<close>, or the streaming response of
  \<open>createDataStreamResponse\<close> (status 200) for a chat id, with the flag \<open>isNewChat\<close>.
  What the stream does after the handler has returned is not modelled.
\<close>

datatype response =
    Response string nat
  | DataStreamResponse string bool

fun status :: "response \<Rightarrow> nat" where
  "status (Response _ n) = n"
| "status (DataStreamResponse _ _) = 200"

text \<open>
  The handler. \<open>session\<close> is the id of the signed-in user, if any. \<open>upsertChat\<close>
  (user, chat id, title, messages) is imported from a file that is not among the
  sources and \<open>crypto.randomUUID()\<close> is the platform's, so both are parameters;
  \<open>tCheck\<close> and \<open>tInsert\<close> are the instants of the check and of the insertion.
  \<open>!currentChatId\<close> holds for a missing chat id and for the empty string.
\<close>

definition POST ::
  "(string \<Rightarrow> string \<Rightarrow> string \<Rightarrow> message list \<Rightarrow> db \<Rightarrow> db) \<Rightarrow> string \<Rightarrow>
   instant \<Rightarrow> instant \<Rightarrow> string option \<Rightarrow> body \<Rightarrow> db \<Rightarrow> response \<times> db" where
  "POST upsertChat newChatId tCheck tInsert session b s =
     (case session of
        None \<Rightarrow> (Response ''Unauthorized'' 401, s)
      | Some uid \<Rightarrow>
          let (canMakeRequest, s1) = checkRateLimit_part000 tCheck uid s
          in if \<not> canMakeRequest then (Response ''Rate limit exceeded'' 429, s1)
             else
               let s2 = recordRequest tInsert uid s1
               in if messages b = [] then (Response ''No messages provided'' 400, s2)
                  else
                    (case (case chatId b of None \<Rightarrow> None
                           | Some c \<Rightarrow> if c = [] then None else Some c) of
                       None \<Rightarrow>
                         (DataStreamResponse newChatId True,
                          upsertChat uid newChatId
                            (take 50 (content (last (messages b))) @ ''...'') (messages b) s2)
                     | Some currentChatId \<Rightarrow>
                         let (chat, s3) = findFirst_chat currentChatId s2
                         in (case chat of
                               None \<Rightarrow> (Response ''Chat not found or unauthorized'' 404, s3)
                             | Some c \<Rightarrow>
                                 if chat_userId c \<noteq> uid
                                 then (Response ''Chat not found or unauthorized'' 404, s3)
                                 else (DataStreamResponse currentChatId False, s3))))"


section \<open>Example data\<close>

text \<open>
  A small database: an administrator, an ordinary user with one usage record one
  second before midnight UTC of 2024-01-01, and a chat owned by a third user.
\<close>

definition exampleDb :: db where
  "exampleDb =
     \<lparr>users = [\<lparr>user_id = ''admin'', isAdmin = Some True\<rparr>,
               \<lparr>user_id = ''alice'', isAdmin = Some False\<rparr>],
      userRequests = [\<lparr>userId = ''alice'', createdAt = utcInstant 2024 0 23 59 59\<rparr>,
                      \<lparr>userId = ''admin'', createdAt = utcInstant 2024 1 0 0 0\<rparr>],
      chats = [\<lparr>chat_id = ''c1'', chat_userId = ''bob''\<rparr>],
      journal = []\<rparr>"


text \<open>
  The zone of New York in 2024: five hours west of Greenwich, and four while the
  clocks are set forward, from 2024-03-10T07:00:00Z to 2024-11-03T06:00:00Z. Read
  as local times the changes are at 03:00 of 10 March, the hour from 02:00 being
  left out and read as before the change, and at 02:00 of 3 November, the hour from
  01:00 being read as its first occurrence. Days are counted from 0 at 1 January.
\<close>

definition newYork2024 :: timezone where
  "newYork2024 =
     \<lparr>offsetAt = (\<lambda>t. if utcInstant 2024 69 7 0 0 \<le> t \<and> t < utcInstant 2024 307 6 0 0
                       then - 14400000 else - 18000000),
      offsetOfLocal = (\<lambda>l. if utcInstant 2024 69 3 0 0 \<le> l \<and> l < utcInstant 2024 307 2 0 0
                            then - 14400000 else - 18000000)\<rparr>"


section \<open>Facts about the day window\<close>

lemma msPerDay_pos: "0 < msPerDay"
  by (simp add: msPerDay_def)

lemma setUTCHours0_le: "setUTCHours0 t \<le> t"
proof -
  have "t = (t div msPerDay) * msPerDay + t mod msPerDay" by simp
  moreover have "0 \<le> t mod msPerDay" using msPerDay_pos by simp
  ultimately show ?thesis unfolding setUTCHours0_def by linarith
qed

lemma setUTCHours0_mono: "t \<le> t' \<Longrightarrow> setUTCHours0 t \<le> setUTCHours0 t'"
  unfolding setUTCHours0_def using msPerDay_pos
  by (simp add: zdiv_mono1 mult_right_mono)

lemma setUTCHours0_day:
  "setUTCHours0 t mod msPerDay = 0 \<and> setUTCHours0 t \<le> t \<and> t < setUTCHours0 t + msPerDay"
proof -
  have "t = (t div msPerDay) * msPerDay + t mod msPerDay" by simp
  moreover have "t mod msPerDay < msPerDay" using msPerDay_pos by simp
  ultimately have "t < setUTCHours0 t + msPerDay" unfolding setUTCHours0_def by linarith
  moreover have "setUTCHours0 t mod msPerDay = 0" by (simp add: setUTCHours0_def)
  ultimately show ?thesis using setUTCHours0_le [of t] by simp
qed

lemma setHours0_fixedZone: "setHours0 (fixedZone z) t = setUTCHours0 (t + z) - z"
  by (simp add: setHours0_def fixedZone_def setUTCHours0_def)

lemma setHours0_utc: "setHours0 (fixedZone 0) t = setUTCHours0 t"
  by (simp add: setHours0_fixedZone)

text \<open>
  On the day the clocks are set back the local day has 25 hours: late on it, local
  midnight is read back with the offset of the morning, which neither fixed offset
  gives.
\<close>

lemma setHours0_clock_change:
  "setHours0 newYork2024 (utcInstant 2024 308 4 30 0) = utcInstant 2024 307 4 0 0
   \<and> setHours0 (fixedZone (- 18000000)) (utcInstant 2024 308 4 30 0) = utcInstant 2024 307 5 0 0
   \<and> setHours0 (fixedZone (- 14400000)) (utcInstant 2024 308 4 30 0) = utcInstant 2024 308 4 0 0"
  by (simp add: setHours0_def newYork2024_def fixedZone_def utcInstant_def DayFromYear_def
      msPerDay_def)

lemma utc_2024_01_01_235959: "utcInstant 2024 0 23 59 59 = 1704153599000"
  by (simp add: utcInstant_def DayFromYear_def msPerDay_def)

lemma utc_2024_01_02_000001: "utcInstant 2024 1 0 0 1 = 1704153601000"
  by (simp add: utcInstant_def DayFromYear_def msPerDay_def)


section \<open>Facts about the queries\<close>

lemma countSince_append:
  "countSince (rs @ [\<lparr>userId = u, createdAt = t\<rparr>]) uid since =
     countSince rs uid since + (if u = uid \<and> since \<le> t then 1 else 0)"
  by (simp add: countSince_def)

lemma countSince_nonneg: "0 \<le> countSince rs uid since"
  by (simp add: countSince_def)

lemma countSince_antimono:
  "since \<le> since' \<Longrightarrow> countSince rs uid since' \<le> countSince rs uid since"
  unfolding countSince_def
  by (induction rs) auto

lemma first_col_take1:
  "first_col (take 1 (map f (filter P xs))) = (case find P xs of None \<Rightarrow> None | Some x \<Rightarrow> f x)"
  by (induction xs) (simp_all add: first_col_def)

lemma fst_isUserAdmin:
  "fst (isUserAdmin uid s) =
     or_false (first_col (take 1 (map isAdmin (filter (\<lambda>u. user_id u = uid) (users s)))))"
  by (simp add: isUserAdmin_def select_isAdmin_def)

lemma snd_isUserAdmin:
  "snd (isUserAdmin uid s) = s\<lparr>journal := journal s @ [SelectUser uid]\<rparr>"
  by (simp add: isUserAdmin_def select_isAdmin_def)

text \<open>Both versions of the admin test read the flag of the first row with the user's id.\<close>

lemma fst_isUserAdmin_find:
  "fst (isUserAdmin uid s) =
     (case find (\<lambda>u. user_id u = uid) (users s) of None \<Rightarrow> False | Some u \<Rightarrow> isAdmin u = Some True)"
  unfolding fst_isUserAdmin first_col_take1
  by (auto simp add: or_false_def split: option.splits)

lemma isUserAdmin_userRequests_update:
  "fst (isUserAdmin uid (s\<lparr>userRequests := reqs\<rparr>)) = fst (isUserAdmin uid s)"
  by (simp add: fst_isUserAdmin)

lemma isUserAdmin_journal_update:
  "fst (isUserAdmin uid (s\<lparr>journal := j\<rparr>)) = fst (isUserAdmin uid s)"
  by (simp add: fst_isUserAdmin)

lemma isUserAdmin_insert_request:
  "fst (isUserAdmin uid (insert_request t u s)) = fst (isUserAdmin uid s)"
  by (simp add: fst_isUserAdmin insert_request_def)

lemma getUserDailyRequestCount_eq:
  "getUserDailyRequestCount tz now uid s =
     (countSince (userRequests s) uid (setHours0 tz now),
      s\<lparr>journal := journal s @ [CountRequests uid (setHours0 tz now)]\<rparr>)"
  by (simp add: getUserDailyRequestCount_def select_count_def first_col_def or_zero_def Let_def)

lemma checkRateLimit_eq:
  "checkRateLimit tz now uid s =
     (if fst (isUserAdmin uid s)
      then (\<lparr>allowed = True, remaining = - 1, limit = - 1\<rparr>,
            s\<lparr>journal := journal s @ [SelectUser uid]\<rparr>)
      else
        (\<lparr>allowed = countSince (userRequests s) uid (setHours0 tz now) < 1,
          remaining = max 0 (1 - countSince (userRequests s) uid (setHours0 tz now)),
          limit = 1\<rparr>,
         s\<lparr>journal := journal s @ [SelectUser uid, CountRequests uid (setHours0 tz now)]\<rparr>))"
  by (simp add: checkRateLimit_def getUserDailyRequestCount_eq DAILY_REQUEST_LIMIT_def
      split_def Let_def snd_isUserAdmin)

lemma checkRateLimit_part000_eq:
  "checkRateLimit_part000 now uid s =
     (if fst (isUserAdmin uid s)
      then (True, s\<lparr>journal := journal s @ [SelectUser uid]\<rparr>)
      else
        (countSince (userRequests s) uid (setUTCHours0 now) < 1,
         s\<lparr>journal := journal s @ [SelectUser uid, CountRequests uid (setUTCHours0 now)]\<rparr>))"
  by (simp add: checkRateLimit_part000_def findFirst_user_def select_count_def first_col_def
      nullish_zero_def REQUESTS_PER_DAY_def Let_def fst_isUserAdmin_find)

lemma exampleDb_alice: "\<not> fst (isUserAdmin ''alice'' exampleDb)"
  by (simp add: fst_isUserAdmin_find exampleDb_def)

lemma exampleDb_admin: "fst (isUserAdmin ''admin'' exampleDb)"
  by (simp add: fst_isUserAdmin_find exampleDb_def)

text \<open>
  A check that finds fewer than one record in a window, followed by one insertion,
  leaves at most one record in any window that starts no earlier.
\<close>

lemma check_then_record_bound:
  assumes "countSince rs uid w1 < 1" and "w1 \<le> w3"
  shows "countSince (rs @ [\<lparr>userId = uid, createdAt = t2\<rparr>]) uid w3 \<le> 1"
proof -
  have "countSince rs uid w3 \<le> countSince rs uid w1"
    using assms(2) by (rule countSince_antimono)
  with assms(1) show ?thesis by (simp add: countSince_append)
qed


section \<open>The decision for a user who is not privileged\<close>

text \<open>
  With the server in UTC the decision for a user whose admin test is false is the
  one the data model describes, on the count of the user's records of the UTC day.
\<close>

lemma checkRateLimit_nonprivileged_utc_zone:
  assumes "\<not> fst (isUserAdmin uid s)"
  shows "fst (checkRateLimit (fixedZone 0) now uid s) =
           \<lparr>allowed = countSince (userRequests s) uid (setUTCHours0 now) < DAILY_REQUEST_LIMIT,
            remaining = max 0 (DAILY_REQUEST_LIMIT
                               - countSince (userRequests s) uid (setUTCHours0 now)),
            limit = DAILY_REQUEST_LIMIT\<rparr>"
  using assms by (simp add: checkRateLimit_eq DAILY_REQUEST_LIMIT_def setHours0_utc)

text \<open>
  Claim C1. For a user who is not privileged \<open>checkRateLimit\<close> is to return
  \<open>limit = DAILY_REQUEST_LIMIT\<close>, \<open>remaining = max(0, limit - n)\<close> and
  \<open>allowed = (n < limit)\<close>, with \<open>n\<close> the number of the user's records of the
  current UTC day. The limit is 1 and \<open>remaining\<close> is not negative, but the count is
  taken from local midnight: with the server five hours west of Greenwich, at
  2024-01-02T00:00:01Z, a user with no record of that UTC day, whose only record is
  of 2024-01-01T23:59:59Z, gets \<open>{allowed: false, remaining: 0, limit: 1}\<close> where
  \<open>n = 0\<close> asks for \<open>{allowed: true, remaining: 1, limit: 1}\<close>.
\<close>

theorem checkRateLimit_refuses_with_empty_utc_day:
  "\<not> fst (isUserAdmin ''alice'' exampleDb)
   \<and> countSince (userRequests exampleDb) ''alice'' (setUTCHours0 (utcInstant 2024 1 0 0 1)) = 0
   \<and> fst (checkRateLimit (fixedZone (- 18000000)) (utcInstant 2024 1 0 0 1) ''alice'' exampleDb) =
       \<lparr>allowed = False, remaining = 0, limit = 1\<rparr>"
  using exampleDb_alice
  by (simp add: checkRateLimit_eq countSince_def exampleDb_def setUTCHours0_def setHours0_def
      fixedZone_def utcInstant_def DayFromYear_def msPerDay_def)


section \<open>The day window\<close>

text \<open>
  Claim C2. The window is meant to be the calendar day in UTC, so a record of
  2024-01-01T23:59:59Z must not count at 2024-01-02T00:00:01Z. In
  \<open>getUserDailyRequestCount\<close> the start of the day comes from \<open>setHours\<close>, which is
  midnight of the server's local day: with the server five hours west of Greenwich
  the window of that check starts at 2024-01-01T05:00:00Z and the record of the
  previous UTC day is counted.
\<close>

theorem getUserDailyRequestCount_counts_previous_utc_day:
  "setHours0 (fixedZone (- 18000000)) (utcInstant 2024 1 0 0 1) = utcInstant 2024 0 5 0 0
   \<and> fst (getUserDailyRequestCount (fixedZone (- 18000000)) (utcInstant 2024 1 0 0 1) ''alice''
           \<lparr>users = [],
            userRequests = [\<lparr>userId = ''alice'', createdAt = utcInstant 2024 0 23 59 59\<rparr>],
            chats = [], journal = []\<rparr>) = 1"
  by (simp add: getUserDailyRequestCount_eq countSince_def setHours0_def fixedZone_def utcInstant_def
      DayFromYear_def msPerDay_def)


section \<open>The decision for a privileged user\<close>

text \<open>
  Claim C3. For a user whose admin test is true, whatever usage records \<open>reqs\<close> the
  ledger holds, \<open>checkRateLimit\<close> returns \<open>{allowed: true, remaining: -1, limit: -1}\<close>,
  and the only statement it sends to the database is the lookup of the user: no
  count of usage records is made.
\<close>

theorem checkRateLimit_privileged:
  assumes "fst (isUserAdmin uid s)"
  shows "fst (checkRateLimit tz now uid (s\<lparr>userRequests := reqs\<rparr>)) =
           \<lparr>allowed = True, remaining = - 1, limit = - 1\<rparr>
       \<and> journal (snd (checkRateLimit tz now uid (s\<lparr>userRequests := reqs\<rparr>))) =
           journal s @ [SelectUser uid]"
  using assms by (simp add: checkRateLimit_eq isUserAdmin_userRequests_update)

theorem checkRateLimit_privileged_witness:
  "fst (isUserAdmin ''admin'' exampleDb)
   \<and> fst (checkRateLimit (fixedZone 0) (utcInstant 2024 1 0 0 1) ''admin''
           (exampleDb\<lparr>userRequests :=
              replicate 1000 \<lparr>userId = ''admin'', createdAt = utcInstant 2024 1 0 0 0\<rparr>\<rparr>)) =
       \<lparr>allowed = True, remaining = - 1, limit = - 1\<rparr>
   \<and> journal (snd (checkRateLimit (fixedZone 0) (utcInstant 2024 1 0 0 1) ''admin''
           (exampleDb\<lparr>userRequests :=
              replicate 1000 \<lparr>userId = ''admin'', createdAt = utcInstant 2024 1 0 0 0\<rparr>\<rparr>))) =
       [SelectUser ''admin'']"
proof -
  have h: "fst (isUserAdmin ''admin'' exampleDb)" by (rule exampleDb_admin)
  have j: "journal exampleDb = []" by (simp add: exampleDb_def)
  show ?thesis
    using h j checkRateLimit_privileged [OF h, of "fixedZone 0" "utcInstant 2024 1 0 0 1"
        "replicate 1000 \<lparr>userId = ''admin'', createdAt = utcInstant 2024 1 0 0 0\<rparr>"]
    by simp
qed


section \<open>Check, then record\<close>

text \<open>
  The check and \<open>recordRequest\<close> that the request handler calls keep the invariant
  of the data model: when the check at \<open>t1\<close> admits a user who is not privileged and
  the usage is then recorded, the user has at most one record in the UTC day
  observed at any \<open>t3\<close> from \<open>t1\<close> on.
\<close>

lemma check_and_record_within_limit_part000:
  assumes "\<not> fst (isUserAdmin uid s)" and "t1 \<le> t3"
      and "fst (checkRateLimit_part000 t1 uid s)"
  shows "countSince (userRequests (recordRequest t2 uid (snd (checkRateLimit_part000 t1 uid s))))
           uid (setUTCHours0 t3) \<le> REQUESTS_PER_DAY"
proof -
  have b: "setUTCHours0 t1 \<le> setUTCHours0 t3"
    using assms(2) by (rule setUTCHours0_mono)
  show ?thesis
    using assms(1,3) check_then_record_bound [OF _ b, of "userRequests s" uid t2]
    by (simp add: checkRateLimit_part000_eq recordRequest_def insert_request_def
        REQUESTS_PER_DAY_def)
qed

text \<open>
  Claim C4. After a check that allows the request and the recording of the usage,
  with nothing else done by the user in between, a user who is not privileged is to
  have at most \<open>limit\<close> records created since the start of the current UTC day.
  \<open>checkRateLimit\<close> and \<open>addUserRequest\<close> of \<open>src/server/db/queries.ts\<close> break
  this: with the server five and a half hours east of Greenwich and a record of
  2024-01-01T10:00:00Z, the check at 2024-01-01T20:00:00Z counts from local midnight,
  2024-01-01T18:30:00Z, and allows the request; once it is recorded the UTC day holds
  two records, and the limit is 1.
\<close>

theorem check_and_record_exceeds_limit_in_utc_day:
  "\<not> fst (isUserAdmin ''alice''
        (exampleDb\<lparr>userRequests := [\<lparr>userId = ''alice'', createdAt = utcInstant 2024 0 10 0 0\<rparr>]\<rparr>))
   \<and> setHours0 (fixedZone 19800000) (utcInstant 2024 0 20 0 0) = utcInstant 2024 0 18 30 0
   \<and> allowed (fst (checkRateLimit (fixedZone 19800000) (utcInstant 2024 0 20 0 0) ''alice''
        (exampleDb\<lparr>userRequests := [\<lparr>userId = ''alice'', createdAt = utcInstant 2024 0 10 0 0\<rparr>]\<rparr>)))
   \<and> countSince
        (userRequests (addUserRequest (utcInstant 2024 0 20 0 0) ''alice''
           (snd (checkRateLimit (fixedZone 19800000) (utcInstant 2024 0 20 0 0) ''alice''
              (exampleDb\<lparr>userRequests :=
                 [\<lparr>userId = ''alice'', createdAt = utcInstant 2024 0 10 0 0\<rparr>]\<rparr>)))))
        ''alice'' (setUTCHours0 (utcInstant 2024 0 20 0 0)) = 2
   \<and> DAILY_REQUEST_LIMIT = 1"
proof -
  let ?s = "exampleDb\<lparr>userRequests := [\<lparr>userId = ''alice'', createdAt = utcInstant 2024 0 10 0 0\<rparr>]\<rparr>"
  have na: "\<not> fst (isUserAdmin ''alice'' ?s)"
    using exampleDb_alice by (simp add: isUserAdmin_userRequests_update)
  have w: "setHours0 (fixedZone 19800000) (utcInstant 2024 0 20 0 0) = utcInstant 2024 0 18 30 0"
    by (simp add: setHours0_def fixedZone_def utcInstant_def DayFromYear_def msPerDay_def)
  have u: "setUTCHours0 (utcInstant 2024 0 20 0 0) = utcInstant 2024 0 0 0 0"
    by (simp add: setUTCHours0_def utcInstant_def DayFromYear_def msPerDay_def)
  have a: "allowed (fst (checkRateLimit (fixedZone 19800000) (utcInstant 2024 0 20 0 0) ''alice'' ?s))"
    using na unfolding checkRateLimit_eq w
    by (simp add: countSince_def utcInstant_def)
  have c: "countSince
        (userRequests (addUserRequest (utcInstant 2024 0 20 0 0) ''alice''
           (snd (checkRateLimit (fixedZone 19800000) (utcInstant 2024 0 20 0 0) ''alice'' ?s))))
        ''alice'' (setUTCHours0 (utcInstant 2024 0 20 0 0)) = 2"
    using na unfolding checkRateLimit_eq u
    by (simp add: addUserRequest_def insert_request_def countSince_def utcInstant_def)
  from na w a c show ?thesis by (simp add: DAILY_REQUEST_LIMIT_def)
qed

text \<open>
  Claim C5. With \<open>DAILY_REQUEST_LIMIT = 1\<close>, a user who is not privileged and has no
  record today is to get \<open>{allowed: true, remaining: 1, limit: 1}\<close>, and after one
  recorded usage \<open>{allowed: false, remaining: 0, limit: 1}\<close>, as after exactly
  \<open>limit\<close> recorded usages today in general. With the server five hours west of
  Greenwich and an empty ledger, the check at 2024-01-02T04:59:00Z gives the first
  answer; the usage is recorded at that instant, so the UTC day holds exactly one
  record of the user; and the check at 2024-01-02T05:01:00Z, on the same UTC day but
  past local midnight, gives \<open>{allowed: true, remaining: 1, limit: 1}\<close> again.
\<close>

theorem checkRateLimit_admits_again_in_utc_day:
  "\<not> fst (isUserAdmin ''alice'' (exampleDb\<lparr>userRequests := []\<rparr>))
   \<and> setUTCHours0 (utcInstant 2024 1 5 1 0) = setUTCHours0 (utcInstant 2024 1 4 59 0)
   \<and> fst (checkRateLimit (fixedZone (- 18000000)) (utcInstant 2024 1 4 59 0) ''alice''
          (exampleDb\<lparr>userRequests := []\<rparr>)) =
       \<lparr>allowed = True, remaining = 1, limit = 1\<rparr>
   \<and> countSince
        (userRequests (addUserRequest (utcInstant 2024 1 4 59 0) ''alice''
           (snd (checkRateLimit (fixedZone (- 18000000)) (utcInstant 2024 1 4 59 0) ''alice''
              (exampleDb\<lparr>userRequests := []\<rparr>)))))
        ''alice'' (setUTCHours0 (utcInstant 2024 1 5 1 0)) = DAILY_REQUEST_LIMIT
   \<and> fst (checkRateLimit (fixedZone (- 18000000)) (utcInstant 2024 1 5 1 0) ''alice''
          (addUserRequest (utcInstant 2024 1 4 59 0) ''alice''
             (snd (checkRateLimit (fixedZone (- 18000000)) (utcInstant 2024 1 4 59 0) ''alice''
                (exampleDb\<lparr>userRequests := []\<rparr>))))) =
       \<lparr>allowed = True, remaining = 1, limit = 1\<rparr>"
proof -
  let ?s = "exampleDb\<lparr>userRequests := []\<rparr>"
  let ?s1 = "snd (checkRateLimit (fixedZone (- 18000000)) (utcInstant 2024 1 4 59 0) ''alice'' ?s)"
  let ?s2 = "addUserRequest (utcInstant 2024 1 4 59 0) ''alice'' ?s1"
  have na: "\<not> fst (isUserAdmin ''alice'' ?s)"
    using exampleDb_alice by (simp add: isUserAdmin_userRequests_update)
  have d: "setUTCHours0 (utcInstant 2024 1 5 1 0) = setUTCHours0 (utcInstant 2024 1 4 59 0)"
    by (simp add: setUTCHours0_def utcInstant_def DayFromYear_def msPerDay_def)
  have first: "fst (checkRateLimit (fixedZone (- 18000000)) (utcInstant 2024 1 4 59 0) ''alice'' ?s) =
       \<lparr>allowed = True, remaining = 1, limit = 1\<rparr>"
    using na by (simp add: checkRateLimit_eq countSince_def)
  have reqs: "userRequests ?s2 = [\<lparr>userId = ''alice'', createdAt = utcInstant 2024 1 4 59 0\<rparr>]"
    using na by (simp add: checkRateLimit_eq addUserRequest_def insert_request_def)
  have na2: "\<not> fst (isUserAdmin ''alice'' ?s2)"
    using na
    by (simp add: checkRateLimit_eq addUserRequest_def isUserAdmin_insert_request
        isUserAdmin_journal_update)
  have cnt: "countSince (userRequests ?s2) ''alice'' (setUTCHours0 (utcInstant 2024 1 5 1 0)) =
      DAILY_REQUEST_LIMIT"
    unfolding reqs
    by (simp add: countSince_def setUTCHours0_def utcInstant_def DayFromYear_def msPerDay_def
        DAILY_REQUEST_LIMIT_def)
  have w: "setHours0 (fixedZone (- 18000000)) (utcInstant 2024 1 5 1 0) = utcInstant 2024 1 5 0 0"
    by (simp add: setHours0_def fixedZone_def utcInstant_def DayFromYear_def msPerDay_def)
  have "fst (checkRateLimit (fixedZone (- 18000000)) (utcInstant 2024 1 5 1 0) ''alice'' ?s2) =
       \<lparr>allowed = countSince (userRequests ?s2) ''alice''
                    (setHours0 (fixedZone (- 18000000)) (utcInstant 2024 1 5 1 0)) < 1,
        remaining = max 0 (1 - countSince (userRequests ?s2) ''alice''
                    (setHours0 (fixedZone (- 18000000)) (utcInstant 2024 1 5 1 0))),
        limit = 1\<rparr>"
    using na2 by (subst checkRateLimit_eq) simp
  then have second:
    "fst (checkRateLimit (fixedZone (- 18000000)) (utcInstant 2024 1 5 1 0) ''alice'' ?s2) =
       \<lparr>allowed = True, remaining = 1, limit = 1\<rparr>"
    unfolding w reqs by (simp add: countSince_def utcInstant_def)
  from na d first cnt second show ?thesis by blast
qed


section \<open>Recording a usage\<close>

text \<open>
  Claim C6. \<open>addUserRequest\<close> appends exactly one record, for the given user and
  with \<open>createdAt = now\<close>; a count over a window that starts at or before \<open>now\<close>,
  taken right after, is one more than the count taken right before, both for the
  count query itself and for \<open>getUserDailyRequestCount\<close>.
\<close>

theorem addUserRequest_counted_once:
  "userRequests (addUserRequest now uid s) = userRequests s @ [\<lparr>userId = uid, createdAt = now\<rparr>]
   \<and> (since \<le> now \<longrightarrow>
        countSince (userRequests (addUserRequest now uid s)) uid since =
          countSince (userRequests s) uid since + 1)
   \<and> (setHours0 tz t \<le> now \<longrightarrow>
        fst (getUserDailyRequestCount tz t uid (addUserRequest now uid s)) =
          fst (getUserDailyRequestCount tz t uid s) + 1)"
  by (simp add: addUserRequest_def insert_request_def countSince_append
      getUserDailyRequestCount_eq)

theorem addUserRequest_counted_once_witness:
  "utcInstant 2024 0 23 0 0 \<le> utcInstant 2024 0 23 59 58
   \<and> setHours0 (fixedZone 0) (utcInstant 2024 0 23 59 59) \<le> utcInstant 2024 0 23 59 58
   \<and> userRequests (addUserRequest (utcInstant 2024 0 23 59 58) ''alice'' exampleDb) =
       userRequests exampleDb @ [\<lparr>userId = ''alice'', createdAt = utcInstant 2024 0 23 59 58\<rparr>]
   \<and> countSince (userRequests exampleDb) ''alice'' (utcInstant 2024 0 23 0 0) = 1
   \<and> countSince (userRequests (addUserRequest (utcInstant 2024 0 23 59 58) ''alice'' exampleDb))
        ''alice'' (utcInstant 2024 0 23 0 0) = 2
   \<and> fst (getUserDailyRequestCount (fixedZone 0) (utcInstant 2024 0 23 59 59) ''alice''
        (addUserRequest (utcInstant 2024 0 23 59 58) ''alice'' exampleDb)) = 2"
proof -
  have a: "utcInstant 2024 0 23 0 0 \<le> utcInstant 2024 0 23 59 58"
    by (simp add: utcInstant_def)
  have b: "setHours0 (fixedZone 0) (utcInstant 2024 0 23 59 59) \<le> utcInstant 2024 0 23 59 58"
    by (simp add: setHours0_def fixedZone_def utcInstant_def DayFromYear_def msPerDay_def)
  have c: "countSince (userRequests exampleDb) ''alice'' (utcInstant 2024 0 23 0 0) = 1"
    by (simp add: countSince_def exampleDb_def utcInstant_def)
  have d: "fst (getUserDailyRequestCount (fixedZone 0) (utcInstant 2024 0 23 59 59) ''alice'' exampleDb) = 1"
    by (simp add: getUserDailyRequestCount_eq countSince_def exampleDb_def setHours0_def fixedZone_def
        utcInstant_def DayFromYear_def msPerDay_def)
  show ?thesis
    using a b c d
      addUserRequest_counted_once [of "utcInstant 2024 0 23 59 58" "''alice''" exampleDb
        "utcInstant 2024 0 23 0 0" "fixedZone 0" "utcInstant 2024 0 23 59 59"]
    by (simp add: countSince_append)
qed



section \<open>A user the users table does not hold\<close>

lemma find_absent: "uid \<notin> user_id ` set us \<Longrightarrow> find (\<lambda>u. user_id u = uid) us = None"
  by (induction us) auto

lemma find_absent_append:
  "uid \<notin> user_id ` set us \<Longrightarrow> find (\<lambda>u. user_id u = uid) (us @ [v]) = (if user_id v = uid then Some v else None)"
  by (induction us) auto

text \<open>
  Claim C7. For a user id with no row in the users table the admin test returns
  false: the empty result of the lookup is taken as "not privileged", and no error
  arises from it. Both versions of \<open>checkRateLimit\<close> then decide as they do for the
  same database with that user added as an ordinary user, that is, by the count of
  the user's records alone.
\<close>

theorem unknown_user_not_privileged:
  assumes "uid \<notin> user_id ` set (users s)"
  shows "fst (isUserAdmin uid s) = False
       \<and> fst (checkRateLimit tz now uid s) =
           fst (checkRateLimit tz now uid
                  (s\<lparr>users := users s @ [\<lparr>user_id = uid, isAdmin = Some False\<rparr>]\<rparr>))
       \<and> fst (checkRateLimit_part000 now uid s) =
           fst (checkRateLimit_part000 now uid
                  (s\<lparr>users := users s @ [\<lparr>user_id = uid, isAdmin = Some False\<rparr>]\<rparr>))
       \<and> fst (checkRateLimit tz now uid s) =
           \<lparr>allowed = countSince (userRequests s) uid (setHours0 tz now) < 1,
            remaining = max 0 (1 - countSince (userRequests s) uid (setHours0 tz now)),
            limit = 1\<rparr>
       \<and> fst (checkRateLimit_part000 now uid s) =
           (countSince (userRequests s) uid (setUTCHours0 now) < 1)"
proof -
  have a: "\<not> fst (isUserAdmin uid s)"
    using assms by (simp add: fst_isUserAdmin_find find_absent)
  have b: "\<not> fst (isUserAdmin uid (s\<lparr>users := users s @ [\<lparr>user_id = uid, isAdmin = Some False\<rparr>]\<rparr>))"
    using assms by (simp add: fst_isUserAdmin_find find_absent_append)
  show ?thesis using a b by (simp add: checkRateLimit_eq checkRateLimit_part000_eq)
qed

theorem unknown_user_not_privileged_witness:
  "''carol'' \<notin> user_id ` set (users exampleDb)
   \<and> fst (isUserAdmin ''carol'' exampleDb) = False
   \<and> fst (checkRateLimit (fixedZone 0) (utcInstant 2024 1 0 0 1) ''carol'' exampleDb) =
       \<lparr>allowed = True, remaining = 1, limit = 1\<rparr>
   \<and> fst (checkRateLimit_part000 (utcInstant 2024 1 0 0 1) ''carol'' exampleDb) = True"
proof -
  have h: "''carol'' \<notin> user_id ` set (users exampleDb)"
    by (simp add: exampleDb_def)
  have c: "countSince (userRequests exampleDb) ''carol'' w = 0" for w
    by (simp add: countSince_def exampleDb_def)
  note u = unknown_user_not_privileged [OF h, of "fixedZone 0" "utcInstant 2024 1 0 0 1"]
  have 1: "fst (isUserAdmin ''carol'' exampleDb) = False"
    using u by (rule conjunct1)
  have 2: "fst (checkRateLimit (fixedZone 0) (utcInstant 2024 1 0 0 1) ''carol'' exampleDb) =
       \<lparr>allowed = True, remaining = 1, limit = 1\<rparr>"
    using u [THEN conjunct2, THEN conjunct2, THEN conjunct2, THEN conjunct1] c by simp
  have 3: "fst (checkRateLimit_part000 (utcInstant 2024 1 0 0 1) ''carol'' exampleDb) = True"
    using u [THEN conjunct2, THEN conjunct2, THEN conjunct2, THEN conjunct2] c by simp
  from h 1 2 3 show ?thesis by blast
qed


section \<open>The request handler\<close>

lemma checkRateLimit_part000_chats:
  "chats (snd (checkRateLimit_part000 t uid s)) = chats s"
  by (simp add: checkRateLimit_part000_eq)

lemma POST_no_messages:
  assumes "fst (checkRateLimit_part000 tCheck uid s)" and "messages b = []"
  shows "POST up nid tCheck tInsert (Some uid) b s =
           (Response ''No messages provided'' 400,
            recordRequest tInsert uid (snd (checkRateLimit_part000 tCheck uid s)))"
  using assms by (simp add: POST_def split_def Let_def)

lemma POST_chat_not_found:
  assumes "fst (checkRateLimit_part000 tCheck uid s)" and "messages b \<noteq> []"
      and "chatId b = Some cid" and "cid \<noteq> []"
      and "case find (\<lambda>c. chat_id c = cid) (chats s) of None \<Rightarrow> True
           | Some c \<Rightarrow> chat_userId c \<noteq> uid"
  shows "fst (POST up nid tCheck tInsert (Some uid) b s) =
           Response ''Chat not found or unauthorized'' 404
       \<and> userRequests (snd (POST up nid tCheck tInsert (Some uid) b s)) =
           userRequests (recordRequest tInsert uid (snd (checkRateLimit_part000 tCheck uid s)))
       \<and> users (snd (POST up nid tCheck tInsert (Some uid) b s)) =
           users (recordRequest tInsert uid (snd (checkRateLimit_part000 tCheck uid s)))"
  using assms
  by (auto simp add: POST_def split_def Let_def findFirst_chat_def recordRequest_def
      insert_request_def checkRateLimit_part000_chats split: option.splits)


lemma checkRateLimit_part000_cong:
  "users s' = users s \<Longrightarrow> userRequests s' = userRequests s \<Longrightarrow>
   fst (checkRateLimit_part000 t uid s') = fst (checkRateLimit_part000 t uid s)"
  by (simp add: checkRateLimit_part000_eq fst_isUserAdmin)

lemma recordRequest_after_check:
  "userRequests (recordRequest tInsert uid (snd (checkRateLimit_part000 tCheck uid s))) =
     userRequests s @ [\<lparr>userId = uid, createdAt = tInsert\<rparr>]
   \<and> users (recordRequest tInsert uid (snd (checkRateLimit_part000 tCheck uid s))) = users s"
  by (simp add: recordRequest_def insert_request_def checkRateLimit_part000_eq)

lemma exampleDb_alice_admitted:
  "fst (checkRateLimit_part000 (utcInstant 2024 1 0 0 1) ''alice'' exampleDb)"
  using exampleDb_alice
  by (simp add: checkRateLimit_part000_eq countSince_def exampleDb_def setUTCHours0_def
      utcInstant_def DayFromYear_def msPerDay_def)

text \<open>
  Claim C8. The handler records the usage right after the check has passed and
  before it looks at the body. For an admitted request with no messages the answer
  is status 400, and for one whose chat id names a chat that does not exist or
  belongs to another user it is status 404; in both cases the ledger has gained
  exactly one record of the user, the count in the day window of the insertion is
  one higher, and a later check on the same day refuses a user who is not
  privileged.
\<close>

theorem POST_records_usage_before_validation:
  assumes "fst (checkRateLimit_part000 tCheck uid s)"
      and "messages b = []
           \<or> (chatId b = Some cid \<and> cid \<noteq> []
              \<and> (case find (\<lambda>c. chat_id c = cid) (chats s) of None \<Rightarrow> True
                  | Some c \<Rightarrow> chat_userId c \<noteq> uid))"
  shows "fst (POST up nid tCheck tInsert (Some uid) b s) =
           (if messages b = [] then Response ''No messages provided'' 400
            else Response ''Chat not found or unauthorized'' 404)
       \<and> userRequests (snd (POST up nid tCheck tInsert (Some uid) b s)) =
           userRequests s @ [\<lparr>userId = uid, createdAt = tInsert\<rparr>]
       \<and> countSince (userRequests (snd (POST up nid tCheck tInsert (Some uid) b s))) uid
           (setUTCHours0 tInsert) =
           countSince (userRequests s) uid (setUTCHours0 tInsert) + 1
       \<and> (\<not> fst (isUserAdmin uid s) \<and> setUTCHours0 t3 \<le> tInsert \<longrightarrow>
            \<not> fst (checkRateLimit_part000 t3 uid (snd (POST up nid tCheck tInsert (Some uid) b s))))"
proof -
  let ?r = "POST up nid tCheck tInsert (Some uid) b s"
  have main: "fst ?r = (if messages b = [] then Response ''No messages provided'' 400
            else Response ''Chat not found or unauthorized'' 404)
       \<and> userRequests (snd ?r) = userRequests s @ [\<lparr>userId = uid, createdAt = tInsert\<rparr>]
       \<and> users (snd ?r) = users s"
  proof (cases "messages b = []")
    case True
    show ?thesis
      using POST_no_messages [OF assms(1) True, of up nid tInsert] True
      by (simp add: recordRequest_after_check)
  next
    case False
    with assms(2) have c: "chatId b = Some cid" "cid \<noteq> []"
      "case find (\<lambda>c. chat_id c = cid) (chats s) of None \<Rightarrow> True
       | Some c \<Rightarrow> chat_userId c \<noteq> uid"
      by simp_all
    show ?thesis
      using POST_chat_not_found [OF assms(1) False c, of up nid tInsert] False
      by (simp add: recordRequest_after_check)
  qed
  then have resp: "fst ?r = (if messages b = [] then Response ''No messages provided'' 400
            else Response ''Chat not found or unauthorized'' 404)"
    and tabs: "userRequests (snd ?r) = userRequests s @ [\<lparr>userId = uid, createdAt = tInsert\<rparr>]"
      "users (snd ?r) = users s"
    by blast+
  have cnt: "countSince (userRequests (snd ?r)) uid (setUTCHours0 tInsert) =
           countSince (userRequests s) uid (setUTCHours0 tInsert) + 1"
    using tabs setUTCHours0_le [of tInsert] by (simp add: countSince_append)
  have later: "\<not> fst (isUserAdmin uid s) \<and> setUTCHours0 t3 \<le> tInsert \<longrightarrow>
            \<not> fst (checkRateLimit_part000 t3 uid (snd ?r))"
  proof
    assume a: "\<not> fst (isUserAdmin uid s) \<and> setUTCHours0 t3 \<le> tInsert"
    have "fst (isUserAdmin uid (snd ?r)) = fst (isUserAdmin uid s)"
      using tabs by (simp add: fst_isUserAdmin)
    moreover have "1 \<le> countSince (userRequests (snd ?r)) uid (setUTCHours0 t3)"
      using tabs a countSince_nonneg [of "userRequests s" uid "setUTCHours0 t3"]
      by (simp add: countSince_append)
    ultimately show "\<not> fst (checkRateLimit_part000 t3 uid (snd ?r))"
      using a by (simp add: checkRateLimit_part000_eq)
  qed
  from resp tabs cnt later show ?thesis by blast
qed

theorem POST_records_usage_before_validation_witness:
  "fst (checkRateLimit_part000 (utcInstant 2024 1 0 0 1) ''alice'' exampleDb)
   \<and> messages \<lparr>messages = [], chatId = None\<rparr> = []
   \<and> fst (POST (\<lambda>u c t m s. s) ''new'' (utcInstant 2024 1 0 0 1) (utcInstant 2024 1 0 0 2)
            (Some ''alice'') \<lparr>messages = [], chatId = None\<rparr> exampleDb) =
       Response ''No messages provided'' 400
   \<and> userRequests (snd (POST (\<lambda>u c t m s. s) ''new'' (utcInstant 2024 1 0 0 1)
            (utcInstant 2024 1 0 0 2) (Some ''alice'') \<lparr>messages = [], chatId = None\<rparr> exampleDb)) =
       userRequests exampleDb @ [\<lparr>userId = ''alice'', createdAt = utcInstant 2024 1 0 0 2\<rparr>]
   \<and> chatId \<lparr>messages = [\<lparr>role = ''user'', content = ''hi''\<rparr>], chatId = Some ''c1''\<rparr> = Some ''c1''
   \<and> ''c1'' \<noteq> []
   \<and> (case find (\<lambda>c. chat_id c = ''c1'') (chats exampleDb) of None \<Rightarrow> True
       | Some c \<Rightarrow> chat_userId c \<noteq> ''alice'')
   \<and> fst (POST (\<lambda>u c t m s. s) ''new'' (utcInstant 2024 1 0 0 1) (utcInstant 2024 1 0 0 2)
            (Some ''alice'')
            \<lparr>messages = [\<lparr>role = ''user'', content = ''hi''\<rparr>], chatId = Some ''c1''\<rparr> exampleDb) =
       Response ''Chat not found or unauthorized'' 404
   \<and> userRequests (snd (POST (\<lambda>u c t m s. s) ''new'' (utcInstant 2024 1 0 0 1)
            (utcInstant 2024 1 0 0 2) (Some ''alice'')
            \<lparr>messages = [\<lparr>role = ''user'', content = ''hi''\<rparr>], chatId = Some ''c1''\<rparr> exampleDb)) =
       userRequests exampleDb @ [\<lparr>userId = ''alice'', createdAt = utcInstant 2024 1 0 0 2\<rparr>]
   \<and> \<not> fst (isUserAdmin ''alice'' exampleDb)
   \<and> setUTCHours0 (utcInstant 2024 1 0 0 3) \<le> utcInstant 2024 1 0 0 2
   \<and> \<not> fst (checkRateLimit_part000 (utcInstant 2024 1 0 0 3) ''alice''
          (snd (POST (\<lambda>u c t m s. s) ''new'' (utcInstant 2024 1 0 0 1)
            (utcInstant 2024 1 0 0 2) (Some ''alice'')
            \<lparr>messages = [\<lparr>role = ''user'', content = ''hi''\<rparr>], chatId = Some ''c1''\<rparr> exampleDb)))"
proof -
  let ?b1 = "\<lparr>messages = [], chatId = None\<rparr>"
  let ?b2 = "\<lparr>messages = [\<lparr>role = ''user'', content = ''hi''\<rparr>], chatId = Some ''c1''\<rparr>"
  have adm: "fst (checkRateLimit_part000 (utcInstant 2024 1 0 0 1) ''alice'' exampleDb)"
    by (rule exampleDb_alice_admitted)
  have e1: "messages ?b1 = []" by simp
  have d1: "messages ?b1 = []
     \<or> (chatId ?b1 = Some ''c1'' \<and> ''c1'' \<noteq> []
        \<and> (case find (\<lambda>c. chat_id c = ''c1'') (chats exampleDb) of None \<Rightarrow> True
            | Some c \<Rightarrow> chat_userId c \<noteq> ''alice''))"
    by simp
  have c2: "chatId ?b2 = Some ''c1''" "''c1'' \<noteq> []"
    "case find (\<lambda>c. chat_id c = ''c1'') (chats exampleDb) of None \<Rightarrow> True
     | Some c \<Rightarrow> chat_userId c \<noteq> ''alice''"
    by (simp_all add: exampleDb_def)
  then have d2: "messages ?b2 = []
     \<or> (chatId ?b2 = Some ''c1'' \<and> ''c1'' \<noteq> []
        \<and> (case find (\<lambda>c. chat_id c = ''c1'') (chats exampleDb) of None \<Rightarrow> True
            | Some c \<Rightarrow> chat_userId c \<noteq> ''alice''))"
    by blast
  have na: "\<not> fst (isUserAdmin ''alice'' exampleDb)" by (rule exampleDb_alice)
  have w: "setUTCHours0 (utcInstant 2024 1 0 0 3) \<le> utcInstant 2024 1 0 0 2"
    by (simp add: setUTCHours0_def utcInstant_def DayFromYear_def msPerDay_def)
  note t1 = POST_records_usage_before_validation [OF adm d1,
      of "\<lambda>u c t m s. s" "''new''" "utcInstant 2024 1 0 0 2" "utcInstant 2024 1 0 0 3"]
  note t2 = POST_records_usage_before_validation [OF adm d2,
      of "\<lambda>u c t m s. s" "''new''" "utcInstant 2024 1 0 0 2" "utcInstant 2024 1 0 0 3"]
  have r1: "fst (POST (\<lambda>u c t m s. s) ''new'' (utcInstant 2024 1 0 0 1) (utcInstant 2024 1 0 0 2)
            (Some ''alice'') ?b1 exampleDb) = Response ''No messages provided'' 400"
    using t1 [THEN conjunct1] by simp
  have l1: "userRequests (snd (POST (\<lambda>u c t m s. s) ''new'' (utcInstant 2024 1 0 0 1)
            (utcInstant 2024 1 0 0 2) (Some ''alice'') ?b1 exampleDb)) =
       userRequests exampleDb @ [\<lparr>userId = ''alice'', createdAt = utcInstant 2024 1 0 0 2\<rparr>]"
    using t1 [THEN conjunct2, THEN conjunct1] .
  have r2: "fst (POST (\<lambda>u c t m s. s) ''new'' (utcInstant 2024 1 0 0 1) (utcInstant 2024 1 0 0 2)
            (Some ''alice'') ?b2 exampleDb) = Response ''Chat not found or unauthorized'' 404"
    using t2 [THEN conjunct1] by simp
  have l2: "userRequests (snd (POST (\<lambda>u c t m s. s) ''new'' (utcInstant 2024 1 0 0 1)
            (utcInstant 2024 1 0 0 2) (Some ''alice'') ?b2 exampleDb)) =
       userRequests exampleDb @ [\<lparr>userId = ''alice'', createdAt = utcInstant 2024 1 0 0 2\<rparr>]"
    using t2 [THEN conjunct2, THEN conjunct1] .
  have n2: "\<not> fst (checkRateLimit_part000 (utcInstant 2024 1 0 0 3) ''alice''
          (snd (POST (\<lambda>u c t m s. s) ''new'' (utcInstant 2024 1 0 0 1)
            (utcInstant 2024 1 0 0 2) (Some ''alice'') ?b2 exampleDb)))"
    using t2 [THEN conjunct2, THEN conjunct2, THEN conjunct2] na w by blast
  from adm e1 r1 l1 c2 r2 l2 na w n2 show ?thesis by blast
qed


section \<open>The two versions of the gate\<close>

text \<open>
  With the server's clock in UTC the two versions take the same decision, and the
  version the handler calls leaves out a record of the previous UTC day.
\<close>

lemma checkRateLimit_versions_agree_utc:
  "allowed (fst (checkRateLimit (fixedZone 0) now uid s)) = fst (checkRateLimit_part000 now uid s)"
  by (simp add: checkRateLimit_eq checkRateLimit_part000_eq setHours0_utc)

lemma checkRateLimit_part000_ignores_previous_utc_day:
  "setUTCHours0 (utcInstant 2024 1 0 0 1) = utcInstant 2024 1 0 0 0
   \<and> countSince [\<lparr>userId = uid, createdAt = utcInstant 2024 0 23 59 59\<rparr>] uid
        (setUTCHours0 (utcInstant 2024 1 0 0 1)) = 0"
  by (simp add: countSince_def setUTCHours0_def utcInstant_def DayFromYear_def msPerDay_def)

text \<open>
  Claim C9. The two versions of \<open>checkRateLimit\<close> are meant to take the same
  admission decision on every user, database and instant. They do not when the
  server is not in UTC: five hours west of Greenwich, at 2024-01-02T00:00:01Z, for a
  user whose only record is of 2024-01-01T23:59:59Z, the version with
  \<open>setUTCHours\<close> admits the request and the version with \<open>setHours\<close> refuses it.
\<close>

theorem checkRateLimit_versions_differ:
  "fst (checkRateLimit_part000 (utcInstant 2024 1 0 0 1) ''alice'' exampleDb) = True
   \<and> allowed (fst (checkRateLimit (fixedZone (- 18000000)) (utcInstant 2024 1 0 0 1) ''alice'' exampleDb)) = False"
  using exampleDb_alice
  by (simp add: checkRateLimit_eq checkRateLimit_part000_eq countSince_def exampleDb_def
      setUTCHours0_def setHours0_def fixedZone_def utcInstant_def DayFromYear_def msPerDay_def)


section \<open>The daily count\<close>

text \<open>
  Claim C10. \<open>getUserDailyRequestCount\<close> returns \<open>result[0]?.count || 0\<close> of the
  count query, which is the number of the user's records in the window: an integer
  that is never negative, and 0 when the user has no record in the window. The
  fallback yields 0 when the query gives no row or a null count, and the count of the
  first row otherwise.
\<close>

theorem getUserDailyRequestCount_total_nonneg:
  "getUserDailyRequestCount tz now uid s =
     (or_zero (first_col (fst (select_count uid (setHours0 tz now) s))),
      snd (select_count uid (setHours0 tz now) s))
   \<and> fst (getUserDailyRequestCount tz now uid s) =
       int (length (filter (\<lambda>r. userId r = uid \<and> setHours0 tz now \<le> createdAt r)
                      (userRequests s)))
   \<and> 0 \<le> fst (getUserDailyRequestCount tz now uid s)
   \<and> (filter (\<lambda>r. userId r = uid \<and> setHours0 tz now \<le> createdAt r) (userRequests s) = []
        \<longrightarrow> fst (getUserDailyRequestCount tz now uid s) = 0)
   \<and> or_zero (first_col []) = 0
   \<and> or_zero (first_col (None # rows)) = 0
   \<and> or_zero (first_col (Some n # rows)) = n"
  by (auto simp add: getUserDailyRequestCount_eq countSince_def select_count_def first_col_def
      or_zero_def split: option.splits list.splits)

theorem getUserDailyRequestCount_total_nonneg_witness:
  "filter (\<lambda>r. userId r = ''carol'' \<and> setHours0 (fixedZone 0) (utcInstant 2024 1 0 0 1) \<le> createdAt r)
     (userRequests exampleDb) = []
   \<and> fst (getUserDailyRequestCount (fixedZone 0) (utcInstant 2024 1 0 0 1) ''carol'' exampleDb) = 0"
proof -
  have a: "filter (\<lambda>r. userId r = ''carol'' \<and> setHours0 (fixedZone 0) (utcInstant 2024 1 0 0 1) \<le> createdAt r)
     (userRequests exampleDb) = []"
    by (simp add: exampleDb_def)
  note t = getUserDailyRequestCount_total_nonneg [of "fixedZone 0" "utcInstant 2024 1 0 0 1" "''carol''"
      exampleDb]
  have d: "fst (getUserDailyRequestCount (fixedZone 0) (utcInstant 2024 1 0 0 1) ''carol'' exampleDb) = 0"
    using t a by blast
  from a d show ?thesis by blast
qed

end
